theory Spec2Isabelle
  imports Main "HOL-Library.Sublist" "HOL-Library.Multiset"
begin

section \<open>Strings\<close>

text \<open>
  A Python \<open>str\<close> is modelled as a \<open>string\<close>; a \<open>char\<close> stands for a code point
  below 256. The character classes below are those of Python's \<open>str.isspace\<close> and
  \<open>str.lower\<close> on that range.
\<close>

definition nl :: string where
  "nl = [CHR 0x0A]"

definition py_isspace :: "char \<Rightarrow> bool" where
  "py_isspace c =
     (let n = (of_char c :: nat)
      in (9 \<le> n \<and> n \<le> 13) \<or> (28 \<le> n \<and> n \<le> 32) \<or> n = 133 \<or> n = 160)"

text \<open>\<open>s.strip()\<close>: leading and trailing whitespace removed.\<close>

definition strip :: "string \<Rightarrow> string" where
  "strip s = rev (dropWhile py_isspace (rev (dropWhile py_isspace s)))"

text \<open>\<open>sub in s\<close> on strings: \<open>sub\<close> starts at some position of \<open>s\<close>.\<close>

fun contains :: "string \<Rightarrow> string \<Rightarrow> bool" where
  "contains sub [] = (sub = [])"
| "contains sub (c # cs) = (prefix sub (c # cs) \<or> contains sub cs)"

text \<open>\<open>s.replace(" ", "_")\<close> and \<open>s.lower()\<close>.\<close>

definition replace_space :: "string \<Rightarrow> string" where
  "replace_space s = map (\<lambda>c. if c = CHR '' '' then CHR ''_'' else c) s"

definition lower_char :: "char \<Rightarrow> char" where
  "lower_char c =
     (let n = (of_char c :: nat)
      in if (65 \<le> n \<and> n \<le> 90) \<or> (192 \<le> n \<and> n \<le> 214) \<or> (216 \<le> n \<and> n \<le> 222)
         then char_of (n + 32) else c)"

definition lower :: "string \<Rightarrow> string" where
  "lower s = map lower_char s"

section \<open>Input Loader\<close>

record business =
  name :: string
  problem :: string
  solution :: string
  landing_page :: string

text \<open>
  What \<open>open(business_csv)\<close> and \<open>csv.reader\<close> deliver: the file is missing, or it
  parses into a list of rows, each a list of fields.
\<close>

datatype csv_file = Missing | Rows "string list list"

datatype exn = SystemExit int | StopIteration | Exception string

text \<open>The \<open>for row in reader\<close> loop, with \<open>businesses\<close> as the accumulator.\<close>

fun load_rows :: "string list list \<Rightarrow> business list \<Rightarrow> business list" where
  "load_rows [] businesses = businesses"
| "load_rows (row # rows) businesses =
     (if length row \<ge> 4
      then load_rows rows (businesses @
             [\<lparr>name = strip (row ! 0), problem = strip (row ! 1),
               solution = strip (row ! 2), landing_page = strip (row ! 3)\<rparr>])
      else load_rows rows businesses)"

text \<open>
  \<open>load_businesses\<close>: a missing file prints a message and exits with status 1;
  \<open>next(reader)\<close> on a file without any row raises \<open>StopIteration\<close>, which is not
  caught.
\<close>

definition load_businesses :: "csv_file \<Rightarrow> exn + business list" where
  "load_businesses file =
     (case file of
        Missing \<Rightarrow> Inl (SystemExit 1)
      | Rows [] \<Rightarrow> Inl StopIteration
      | Rows (header # rows) \<Rightarrow> Inr (load_rows rows []))"

section \<open>The environment of one call\<close>

text \<open>
  \<open>subprocess.run\<close> either returns a completed process (return code and captured,
  decoded standard output) or raises an exception, given here by its message \<open>str(e)\<close>.
\<close>

datatype proc_result = Completed int string | Raised string

text \<open>
  Opening a file and writing to it succeeds, fails at \<open>open\<close>, or fails after the file
  was opened, when a number of characters may already have reached it.
\<close>

datatype io_outcome = IoOk | OpenFails string | WriteFails nat string

record datetime =
  year :: nat
  month :: nat
  day :: nat
  hour :: nat
  minute :: nat
  second :: nat
  microsecond :: nat

text \<open>
  What one call of the per-record handler meets outside the program: the directory of
  the script (the module constant \<open>script_directory\<close>), the behaviour of
  \<open>subprocess.run\<close> on an argument vector, the local clock \<open>datetime.now()\<close>, and
  the fate of opening and writing each path.
\<close>

record env =
  script_directory :: string
  subprocess_run :: "string list \<Rightarrow> proc_result"
  now :: datetime
  open_write :: "string \<Rightarrow> io_outcome"

type_synonym fs = "string \<rightharpoonup> string"

text \<open>\<open>os.path.join\<close> of two components (POSIX).\<close>

definition path_join :: "string \<Rightarrow> string \<Rightarrow> string" where
  "path_join a b =
     (if prefix ''/'' b then b
      else if a = [] \<or> suffix ''/'' a then a @ b
      else a @ ''/'' @ b)"

definition output_directory :: "env \<Rightarrow> string" where
  "output_directory e = path_join (script_directory e) ''Generated_Business_Plans''"

text \<open>\<open>with open(path, 'w') as file: file.write(data)\<close>; \<open>Inl\<close> is the exception raised.\<close>

fun write_file :: "io_outcome \<Rightarrow> string \<Rightarrow> string \<Rightarrow> fs \<Rightarrow> (string + unit) \<times> fs" where
  "write_file IoOk path data files = (Inr (), files(path \<mapsto> data))"
| "write_file (OpenFails e) path data files = (Inl e, files)"
| "write_file (WriteFails n e) path data files = (Inl e, files(path \<mapsto> take n data))"

text \<open>The same with mode \<open>'a'\<close>: the data goes after what the file holds.\<close>

definition file_content :: "fs \<Rightarrow> string \<Rightarrow> string" where
  "file_content files path = (case files path of None \<Rightarrow> [] | Some old \<Rightarrow> old)"

fun append_file :: "io_outcome \<Rightarrow> string \<Rightarrow> string \<Rightarrow> fs \<Rightarrow> (string + unit) \<times> fs" where
  "append_file IoOk path data files =
     (Inr (), files(path \<mapsto> file_content files path @ data))"
| "append_file (OpenFails e) path data files = (Inl e, files)"
| "append_file (WriteFails n e) path data files =
     (Inl e, files(path \<mapsto> file_content files path @ take n data))"

section \<open>Output file names\<close>

definition digit :: "nat \<Rightarrow> char" where
  "digit n = char_of (48 + n mod 10)"

definition pad2 :: "nat \<Rightarrow> string" where
  "pad2 n = [digit (n div 10), digit n]"

definition pad4 :: "nat \<Rightarrow> string" where
  "pad4 n = [digit (n div 1000), digit (n div 100), digit (n div 10), digit n]"

text \<open>\<open>strftime('%Y-%m-%d_%H-%M-%S')\<close>, for a year of four digits.\<close>

definition strftime :: "datetime \<Rightarrow> string" where
  "strftime t =
     pad4 (year t) @ ''-'' @ pad2 (month t) @ ''-'' @ pad2 (day t) @ ''_''
       @ pad2 (hour t) @ ''-'' @ pad2 (minute t) @ ''-'' @ pad2 (second t)"

definition generate_filename :: "datetime \<Rightarrow> string \<Rightarrow> string" where
  "generate_filename t nm =
     (let title = lower (replace_space nm)
      in title @ ''_'' @ strftime t)"

section \<open>Plan Generator\<close>

definition prompt :: "business \<Rightarrow> string" where
  "prompt b =
     ''Write a detailed business plan for a company called '' @ [CHR 0x27] @ name b
       @ [CHR 0x27] @ ''.'' @ nl
     @ ''1. Executive Summary'' @ nl
     @ ''2. Problem Statement: '' @ problem b @ nl
     @ ''3. Solution: '' @ solution b @ nl
     @ ''4. Business Model'' @ nl
     @ ''5. Market Analysis'' @ nl
     @ ''6. Marketing Strategy'' @ nl
     @ ''7. Financial Plan'' @ nl
     @ ''8. Conclusion'' @ nl
     @ nl @ ''Include a reference to the company'' @ [CHR 0x27] @ ''s landing page: ''
     @ landing_page b @ ''.''"

definition generate_business_plan :: "env \<Rightarrow> business \<Rightarrow> string \<Rightarrow> string" where
  "generate_business_plan e b model =
     (case subprocess_run e [''ollama'', ''run'', model, prompt b] of
        Completed returncode stdout \<Rightarrow>
          if returncode = 0 then strip stdout
          else ''Error: AI model failed to generate business plan.''
      | Raised msg \<Rightarrow> ''Error: '' @ msg)"

section \<open>Output Writer\<close>

definition plan_path :: "env \<Rightarrow> business \<Rightarrow> string" where
  "plan_path e b =
     path_join (output_directory e) (generate_filename (now e) (name b) @ ''.txt'')"

definition save_business_plan :: "env \<Rightarrow> business \<Rightarrow> string \<Rightarrow> fs \<Rightarrow> string \<times> fs" where
  "save_business_plan e b plan files =
     (let file_path = plan_path e b
      in case write_file (open_write e file_path) file_path plan files of
           (Inr u, files') \<Rightarrow> (''Business plan saved: '' @ file_path, files')
         | (Inl msg, files') \<Rightarrow> (''Error saving file: '' @ msg, files'))"

section \<open>The per-record handler\<close>

definition error_log_path :: "env \<Rightarrow> string" where
  "error_log_path e = path_join (output_directory e) ''error_log.txt''"

text \<open>
  The body of the \<open>try\<close> block of \<open>process_business\<close>: \<open>Inl\<close> is the exception it
  raises, \<open>Inr\<close> the value it returns.
\<close>

definition process_try :: "env \<Rightarrow> business \<Rightarrow> fs \<Rightarrow> (string + string) \<times> fs" where
  "process_try e b files =
     (let plan = generate_business_plan e b ''mistral''
      in if contains ''Error'' plan then (Inl plan, files)
         else (case save_business_plan e b plan files of
                 (result, files') \<Rightarrow> (Inr result, files')))"

definition error_message :: "business \<Rightarrow> string \<Rightarrow> string" where
  "error_message b msg =
     ''Error processing '' @ [CHR 0x27] @ name b @ [CHR 0x27] @ '': '' @ msg @ nl"

text \<open>
  \<open>process_business\<close>: the \<open>except\<close> clause appends the message to the error log and
  returns it; an exception raised while appending leaves the function.
\<close>

definition process_business :: "env \<Rightarrow> business \<Rightarrow> fs \<Rightarrow> (exn + string) \<times> fs" where
  "process_business e b files =
     (case process_try e b files of
        (Inr result, files') \<Rightarrow> (Inr result, files')
      | (Inl msg, files') \<Rightarrow>
          (let log = error_log_path e
           in case append_file (open_write e log) log (error_message b msg) files' of
                (Inr u, files'') \<Rightarrow> (Inr (error_message b msg), files'')
              | (Inl io_msg, files'') \<Rightarrow> (Inl (Exception io_msg), files'')))"

section \<open>Worker Pool Orchestrator\<close>

text \<open>
  \<open>check_dependencies\<close>, given whether \<open>tqdm\<close> can be imported and what running
  \<open>which ollama\<close> does.
\<close>

definition check_dependencies :: "bool \<Rightarrow> proc_result \<Rightarrow> exn + unit" where
  "check_dependencies tqdm_importable which_ollama =
     (let missing = (if tqdm_importable then [] else [''tqdm''])
      in case which_ollama of
           Raised msg \<Rightarrow> Inl (Exception msg)
         | Completed returncode stdout \<Rightarrow>
             (let missing = missing @ (if returncode \<noteq> 0 then [''ollama''] else [])
              in if missing \<noteq> [] then Inl (SystemExit 1) else Inr ()))"

text \<open>
  The pool runs the calls of the handler in separate processes, so the order in which
  they complete is not the order of the records. The scheduler is part of the
  environment: at each step, \<open>pick step\<close> selects which of the pending calls completes
  next. \<open>run_order\<close> is the resulting order of completion, a list of positions of
  records.
\<close>

function run_order :: "(nat \<Rightarrow> nat) \<Rightarrow> nat \<Rightarrow> nat list \<Rightarrow> nat list" where
  "run_order pick step pending =
     (if pending = [] then []
      else pending ! (pick step mod length pending)
           # run_order pick (Suc step)
               (take (pick step mod length pending) pending
                @ drop (Suc (pick step mod length pending)) pending))"
  by pat_completeness auto
termination
proof (relation "measure (\<lambda>(pick, step, pending). length pending)")
  show "wf (measure (\<lambda>(pick, step, pending). length (pending :: nat list)))"
    by simp
next
  fix pick :: "nat \<Rightarrow> nat" and step :: nat and pending :: "nat list"
  assume "pending \<noteq> []"
  then have "pick step mod length pending < length pending"
    by simp
  then show "((pick, Suc step,
               take (pick step mod length pending) pending
               @ drop (Suc (pick step mod length pending)) pending),
              (pick, step, pending))
             \<in> measure (\<lambda>(pick, step, pending). length pending)"
    by simp
qed

declare run_order.simps [simp del]

text \<open>
  The calls of the handler, in their order of completion, each on the files the calls
  before it have left; each call is taken to open, write and close its file without
  another call in between. The positions come from \<open>run_order\<close> on the positions of
  \<open>businesses\<close>, so \<open>businesses ! k\<close> is always a record of the list.
\<close>

fun run_calls ::
  "(nat \<Rightarrow> env) \<Rightarrow> business list \<Rightarrow> nat list \<Rightarrow> fs \<Rightarrow> (nat \<times> (exn + string)) list \<times> fs" where
  "run_calls worker businesses [] files = ([], files)"
| "run_calls worker businesses (k # ks) files =
     (case process_business (worker k) (businesses ! k) files of
        (outcome, files') \<Rightarrow>
          (case run_calls worker businesses ks files' of
             (finished, files'') \<Rightarrow> ((k, outcome) # finished, files'')))"

text \<open>
  Iterating over \<open>pool.imap\<close>: the outcomes in the order of the records; the first call
  that raised has its exception raised again in the parent.
\<close>

fun collect :: "(exn + string) list \<Rightarrow> exn + string list" where
  "collect [] = Inr []"
| "collect (Inl x # outcomes) = Inl x"
| "collect (Inr r # outcomes) =
     (case collect outcomes of Inl x \<Rightarrow> Inl x | Inr rs \<Rightarrow> Inr (r # rs))"

text \<open>
  \<open>list(pool.imap(process_business, businesses))\<close> inside \<open>with Pool(...)\<close>. The call for
  the record at position \<open>i\<close> runs in the environment \<open>worker i\<close>. When a call has
  raised, the pool is terminated while other calls may still be pending, so no state
  of the files is given for that case.
\<close>

definition pool_imap ::
  "(nat \<Rightarrow> env) \<Rightarrow> (nat \<Rightarrow> nat) \<Rightarrow> business list \<Rightarrow> fs \<Rightarrow> exn + (string list \<times> fs)" where
  "pool_imap worker pick businesses files =
     (case run_calls worker businesses (run_order pick 0 [0..<length businesses]) files of
        (finished, files') \<Rightarrow>
          (case collect (map snd (sort_key fst finished)) of
             Inl x \<Rightarrow> Inl x
           | Inr rs \<Rightarrow> Inr (rs, files')))"

record host =
  tqdm_importable :: bool
  which_ollama :: proc_result
  business_csv :: csv_file
  worker :: "nat \<Rightarrow> env"
  scheduler :: "nat \<Rightarrow> nat"

text \<open>What \<open>main\<close> computes and prints in its summary report.\<close>

record report =
  results :: "string list"
  total :: int
  success_count :: int
  failure_count :: int
  check_log_hint :: bool

definition main :: "host \<Rightarrow> fs \<Rightarrow> exn + (report \<times> fs)" where
  "main h files =
     (case check_dependencies (tqdm_importable h) (which_ollama h) of
        Inl x \<Rightarrow> Inl x
      | Inr u \<Rightarrow>
     (case load_businesses (business_csv h) of
        Inl x \<Rightarrow> Inl x
      | Inr businesses \<Rightarrow>
     (case pool_imap (worker h) (scheduler h) businesses files of
        Inl x \<Rightarrow> Inl x
      | Inr (rs, files') \<Rightarrow>
          (let successes = sum_list (map (\<lambda>r. 1) (filter (contains ''saved'') rs));
               failures = int (length businesses) - successes
           in Inr (\<lparr>results = rs, total = int (length businesses),
                    success_count = successes, failure_count = failures,
                    check_log_hint = (failures > 0)\<rparr>, files')))))"

section \<open>Auxiliary notions and sample inputs\<close>

text \<open>The external tool failed: a non-zero exit code, or an exception.\<close>

fun tool_failed :: "proc_result \<Rightarrow> bool" where
  "tool_failed (Completed returncode stdout) = (returncode \<noteq> 0)"
| "tool_failed (Raised msg) = True"

text \<open>A text that is one line: it ends with a newline and holds no other.\<close>

definition single_line :: "string \<Rightarrow> bool" where
  "single_line s = (s \<noteq> [] \<and> last s = CHR 0x0A \<and> CHR 0x0A \<notin> set (butlast s))"



definition const_run :: "proc_result \<Rightarrow> string list \<Rightarrow> proc_result" where
  "const_run r argv = r"

definition io_ok :: "string \<Rightarrow> io_outcome" where
  "io_ok path = IoOk"

definition io_denied :: "string \<Rightarrow> io_outcome" where
  "io_denied path = OpenFails ''Permission denied''"

definition io_log_only :: "string \<Rightarrow> io_outcome" where
  "io_log_only path =
     (if path = ''/app/Generated_Business_Plans/error_log.txt'' then IoOk
      else OpenFails ''No space left on device'')"

definition t0 :: datetime where
  "t0 = \<lparr>year = 2024, month = 3, day = 9, hour = 14, minute = 5, second = 7,
          microsecond = 123456\<rparr>"

definition sample_env :: "proc_result \<Rightarrow> (string \<Rightarrow> io_outcome) \<Rightarrow> env" where
  "sample_env r io =
     \<lparr>script_directory = ''/app'', subprocess_run = const_run r, now = t0,
      open_write = io\<rparr>"

definition acme :: business where
  "acme = \<lparr>name = ''Acme'', problem = ''too slow'', solution = ''faster widget'',
            landing_page = ''acme.com''\<rparr>"

definition two_lines :: business where
  "two_lines = \<lparr>name = ''A\<newline>B'', problem = ''p'', solution = ''s'',
                 landing_page = ''l''\<rparr>"




definition sample_rows :: "string list list" where
  "sample_rows =
     [[''name'', ''problem'', ''solution'', ''landing_page''],
      ['' Acme '', ''too slow'', ''faster widget '', ''acme.com'', ''extra''],
      [''Short'', ''row''],
      [''Bolt'', ''p2'', ''s2'', ''bolt.io'']]"

definition sample_worker :: "nat \<Rightarrow> env" where
  "sample_worker i =
     (if i = 0 then sample_env (Completed 0 ''PLAN TEXT\<newline>'') io_ok
      else sample_env (Completed 1 []) io_ok)"

text \<open>A scheduler under which, of two calls, the second completes first.\<close>

definition second_first :: "nat \<Rightarrow> nat" where
  "second_first step = 1"

definition sample_host :: host where
  "sample_host =
     \<lparr>tqdm_importable = True, which_ollama = Completed 0 ''/usr/local/bin/ollama\<newline>'',
      business_csv = Rows sample_rows, worker = sample_worker,
      scheduler = second_first\<rparr>"

definition error_word_worker :: "nat \<Rightarrow> env" where
  "error_word_worker i = sample_env (Completed 0 ''Error budget plan'') io_ok"

definition error_word_host :: host where
  "error_word_host =
     \<lparr>tqdm_importable = True, which_ollama = Completed 0 ''/usr/local/bin/ollama\<newline>'',
      business_csv = Rows [[''name'', ''problem'', ''solution'', ''landing_page''],
                           [''Acme'', ''too slow'', ''faster widget'', ''acme.com'']],
      worker = error_word_worker, scheduler = second_first\<rparr>"

definition time_saved :: business where
  "time_saved = \<lparr>name = ''Time saved'', problem = ''p'', solution = ''s'',
                  landing_page = ''l''\<rparr>"

definition bolt :: business where
  "bolt = \<lparr>name = ''Bolt'', problem = ''p2'', solution = ''s2'', landing_page = ''bolt.io''\<rparr>"

definition denied_worker :: "nat \<Rightarrow> env" where
  "denied_worker i = sample_env (Completed 1 []) io_denied"

definition denied_host :: host where
  "denied_host =
     \<lparr>tqdm_importable = True, which_ollama = Completed 0 ''/usr/local/bin/ollama\<newline>'',
      business_csv = Rows sample_rows, worker = denied_worker, scheduler = second_first\<rparr>"

definition earlier_log :: fs where
  "earlier_log = [''/app/Generated_Business_Plans/error_log.txt'' \<mapsto> ''earlier line\<newline>'']"

section \<open>Properties of the string operations\<close>

lemma char_of_eq_iff: "char_of (n::nat) = c \<longleftrightarrow> n mod 256 = of_char c"
  by (metis char_of_char of_char_of)

lemma eq_char_of_iff: "c = char_of (n::nat) \<longleftrightarrow> n mod 256 = of_char c"
  by (metis char_of_char of_char_of)

lemma contains_iff: "contains sub s \<longleftrightarrow> (\<exists>ps ss. s = ps @ sub @ ss)"
proof (induction s)
  case Nil
  then show ?case by auto
next
  case (Cons c cs)
  show ?case
  proof
    assume "contains sub (c # cs)"
    then consider "prefix sub (c # cs)" | "contains sub cs" by auto
    then show "\<exists>ps ss. c # cs = ps @ sub @ ss"
    proof cases
      case 1
      then obtain ss where "c # cs = sub @ ss" by (auto simp: prefix_def)
      then have "c # cs = [] @ sub @ ss" by simp
      then show ?thesis by blast
    next
      case 2
      with Cons.IH obtain ps ss where "cs = ps @ sub @ ss" by blast
      then have "c # cs = (c # ps) @ sub @ ss" by simp
      then show ?thesis by blast
    qed
  next
    assume "\<exists>ps ss. c # cs = ps @ sub @ ss"
    then obtain ps ss where eq: "c # cs = ps @ sub @ ss" by blast
    show "contains sub (c # cs)"
    proof (cases ps)
      case Nil
      with eq have "prefix sub (c # cs)" by (simp add: prefix_def)
      then show ?thesis by simp
    next
      case (Cons p ps')
      with eq have "cs = ps' @ sub @ ss" by simp
      with Cons.IH have "contains sub cs" by blast
      then show ?thesis by simp
    qed
  qed
qed

lemma strip_dropWhile:
  "dropWhile py_isspace s =
     strip s @ rev (takeWhile py_isspace (rev (dropWhile py_isspace s)))"
proof -
  let ?d = "dropWhile py_isspace s"
  have "strip s @ rev (takeWhile py_isspace (rev ?d))
      = rev (takeWhile py_isspace (rev ?d) @ dropWhile py_isspace (rev ?d))"
    by (simp only: strip_def rev_append)
  also have "\<dots> = ?d"
    by (simp only: takeWhile_dropWhile_id rev_rev_ident)
  finally show ?thesis by simp
qed

lemma strip_decompose:
  "s = takeWhile py_isspace s @ strip s
         @ rev (takeWhile py_isspace (rev (dropWhile py_isspace s)))"
proof -
  have "s = takeWhile py_isspace s @ dropWhile py_isspace s" by simp
  then show ?thesis using strip_dropWhile [of s] by simp
qed

lemma strip_last: "strip s \<noteq> [] \<Longrightarrow> \<not> py_isspace (last (strip s))"
proof -
  assume ne: "strip s \<noteq> []"
  let ?r = "dropWhile py_isspace (rev (dropWhile py_isspace s))"
  from ne have r: "?r \<noteq> []" by (simp add: strip_def)
  then have "\<not> py_isspace (hd ?r)" by (rule hd_dropWhile)
  moreover from r have "last (strip s) = hd ?r" by (simp add: strip_def last_rev)
  ultimately show ?thesis by simp
qed

lemma strip_hd: "strip s \<noteq> [] \<Longrightarrow> \<not> py_isspace (hd (strip s))"
proof -
  assume ne: "strip s \<noteq> []"
  define d where "d = dropWhile py_isspace s"
  define t where "t = rev (takeWhile py_isspace (rev d))"
  have eq: "d = strip s @ t"
    unfolding d_def t_def by (rule strip_dropWhile)
  with ne have "d \<noteq> []" by simp
  then have "\<not> py_isspace (hd d)"
    unfolding d_def by (rule hd_dropWhile)
  moreover from ne eq have "hd d = hd (strip s)" by simp
  ultimately show ?thesis by simp
qed

section \<open>Properties of the Input Loader\<close>

lemma load_rows_acc:
  "load_rows rows businesses =
     businesses @ map (\<lambda>row. \<lparr>name = strip (row ! 0), problem = strip (row ! 1),
                          solution = strip (row ! 2), landing_page = strip (row ! 3)\<rparr>)
                    (filter (\<lambda>row. 4 \<le> length row) rows)"
  by (induction rows arbitrary: businesses) simp_all

text \<open>
  C1. After the header row, every row with at least four fields gives exactly one
  record, in the order of the rows, whose fields \<open>name\<close>, \<open>problem\<close>, \<open>solution\<close>
  and \<open>landing_page\<close> are the first four fields of the row, stripped; and stripping
  a field cuts whitespace off both ends and nothing else, leaving no whitespace at
  either end.
\<close>

theorem load_businesses_records:
  "load_businesses (Rows (header # rows)) =
     Inr (map (\<lambda>row. \<lparr>name = strip (row ! 0), problem = strip (row ! 1),
                       solution = strip (row ! 2), landing_page = strip (row ! 3)\<rparr>)
              (filter (\<lambda>row. 4 \<le> length row) rows))
   \<and> (\<exists>l r. field = l @ strip field @ r \<and> list_all py_isspace l \<and> list_all py_isspace r)
   \<and> (strip field = [] \<or>
        \<not> py_isspace (hd (strip field)) \<and> \<not> py_isspace (last (strip field)))"
proof -
  have "load_businesses (Rows (header # rows)) =
     Inr (map (\<lambda>row. \<lparr>name = strip (row ! 0), problem = strip (row ! 1),
                       solution = strip (row ! 2), landing_page = strip (row ! 3)\<rparr>)
              (filter (\<lambda>row. 4 \<le> length row) rows))"
    by (simp add: load_businesses_def load_rows_acc)
  moreover have "\<exists>l r. field = l @ strip field @ r \<and> list_all py_isspace l
      \<and> list_all py_isspace r"
  proof (intro exI conjI)
    show "field = takeWhile py_isspace field @ strip field
            @ rev (takeWhile py_isspace (rev (dropWhile py_isspace field)))"
      by (rule strip_decompose)
    show "list_all py_isspace (takeWhile py_isspace field)"
      by (simp add: list_all_iff) (meson set_takeWhileD)
    show "list_all py_isspace
            (rev (takeWhile py_isspace (rev (dropWhile py_isspace field))))"
      by (simp add: list_all_iff) (meson set_takeWhileD)
  qed
  moreover have "strip field = [] \<or>
        \<not> py_isspace (hd (strip field)) \<and> \<not> py_isspace (last (strip field))"
    using strip_hd [of field] strip_last [of field] by blast
  ultimately show ?thesis by blast
qed

theorem load_businesses_records_witness:
  "load_businesses (Rows sample_rows) =
     Inr [\<lparr>name = ''Acme'', problem = ''too slow'', solution = ''faster widget'',
           landing_page = ''acme.com''\<rparr>,
          \<lparr>name = ''Bolt'', problem = ''p2'', solution = ''s2'',
           landing_page = ''bolt.io''\<rparr>]
   \<and> strip '' Acme '' = ''Acme''
   \<and> \<not> py_isspace (hd (strip '' Acme '')) \<and> \<not> py_isspace (last (strip '' Acme ''))"
  using load_businesses_records
    [of "[''name'', ''problem'', ''solution'', ''landing_page'']"
        "[['' Acme '', ''too slow'', ''faster widget '', ''acme.com'', ''extra''],
          [''Short'', ''row''], [''Bolt'', ''p2'', ''s2'', ''bolt.io'']]" "'' Acme ''"]
  by (simp add: sample_rows_def strip_def py_isspace_def)

text \<open>
  C8. A row after the header with fewer than four fields is dropped without an
  error: the Loader returns the records it returns for the file without that row.
\<close>

theorem short_row_dropped:
  assumes "length row < 4"
  shows "load_businesses (Rows (header # before @ row # after)) =
           load_businesses (Rows (header # before @ after))
       \<and> load_businesses (Rows (header # before @ row # after)) =
           Inr (load_rows (before @ after) [])"
  using assms by (simp add: load_businesses_def load_rows_acc)

theorem short_row_dropped_witness:
  "load_businesses (Rows sample_rows) =
     load_businesses (Rows [[''name'', ''problem'', ''solution'', ''landing_page''],
        ['' Acme '', ''too slow'', ''faster widget '', ''acme.com'', ''extra''],
        [''Bolt'', ''p2'', ''s2'', ''bolt.io'']])"
  using short_row_dropped
    [of "[''Short'', ''row'']" "[''name'', ''problem'', ''solution'', ''landing_page'']"
        "[['' Acme '', ''too slow'', ''faster widget '', ''acme.com'', ''extra'']]"
        "[[''Bolt'', ''p2'', ''s2'', ''bolt.io'']]"]
  by (simp add: sample_rows_def)

section \<open>Properties of the Plan Generator and the per-record handler\<close>

lemma sample_env_sel:
  "script_directory (sample_env r io) = ''/app''"
  "subprocess_run (sample_env r io) = const_run r"
  "now (sample_env r io) = t0"
  "open_write (sample_env r io) = io"
  by (simp_all add: sample_env_def)

lemma strftime_t0: "strftime t0 = ''2024-03-09_14-05-07''"
  by (simp add: strftime_def t0_def pad2_def pad4_def digit_def char_of_eq_iff)

lemma output_directory_sample:
  "output_directory (sample_env r io) = ''/app/Generated_Business_Plans''"
  by (simp add: output_directory_def path_join_def sample_env_sel suffix_to_prefix)

lemma error_log_path_sample:
  "error_log_path (sample_env r io) = ''/app/Generated_Business_Plans/error_log.txt''"
  by (simp add: error_log_path_def output_directory_sample path_join_def suffix_to_prefix)

lemma plan_path_acme:
  "plan_path (sample_env r io) acme =
     ''/app/Generated_Business_Plans/acme_2024-03-09_14-05-07.txt''"
  by (simp add: plan_path_def output_directory_sample path_join_def suffix_to_prefix
      generate_filename_def lower_def replace_space_def lower_char_def acme_def
      strftime_t0 sample_env_sel char_of_eq_iff eq_char_of_iff)


lemma strip_plan_text: "strip ''PLAN TEXT\<newline>'' = ''PLAN TEXT''"
  by (simp add: strip_def py_isspace_def nl_def)

lemma name_acme: "name acme = ''Acme''"
  by (simp add: acme_def)

lemma plan_failed_sample:
  "generate_business_plan (sample_env (Completed 1 []) io) b model =
     ''Error: AI model failed to generate business plan.''"
  by (simp add: generate_business_plan_def sample_env_sel const_run_def)

lemma plan_when_failed:
  "tool_failed (subprocess_run e [''ollama'', ''run'', model, prompt b])
     \<Longrightarrow> contains ''Error'' (generate_business_plan e b model)"
  by (cases "subprocess_run e [''ollama'', ''run'', model, prompt b]")
     (simp_all add: generate_business_plan_def)

text \<open>
  C2 (as amended). When the external tool exits with a non-zero code or the call raises
  an exception, the Plan Generator returns a string containing \<open>Error\<close>; when the
  tool exits with code 0 it returns the captured standard output with leading and
  trailing whitespace stripped.
\<close>

theorem generate_business_plan_outcomes:
  "(case subprocess_run e [''ollama'', ''run'', model, prompt b] of
      Completed returncode stdout \<Rightarrow>
        if returncode = 0 then generate_business_plan e b model = strip stdout
        else contains ''Error'' (generate_business_plan e b model)
    | Raised msg \<Rightarrow> contains ''Error'' (generate_business_plan e b model))"
  by (simp add: generate_business_plan_def split: proc_result.split)

theorem generate_business_plan_outcomes_witness:
  "generate_business_plan (sample_env (Completed 0 ''PLAN TEXT\<newline>'') io_ok) acme ''mistral''
     = ''PLAN TEXT''
   \<and> contains ''Error''
       (generate_business_plan (sample_env (Completed 1 []) io_ok) acme ''mistral'')
   \<and> contains ''Error''
       (generate_business_plan (sample_env (Raised ''No such file'') io_ok) acme ''mistral'')"
  using generate_business_plan_outcomes
      [where e = "sample_env (Completed 0 ''PLAN TEXT\<newline>'') io_ok"
         and model = "''mistral''" and b = acme]
    generate_business_plan_outcomes
      [where e = "sample_env (Completed 1 [])  io_ok"
         and model = "''mistral''" and b = acme]
    generate_business_plan_outcomes
      [where e = "sample_env (Raised ''No such file'') io_ok"
         and model = "''mistral''" and b = acme]
  by (simp add: sample_env_sel const_run_def strip_plan_text)

text \<open>
  The claim as stated fails: with exit code 0 and output \<open>PLAN TEXT\<close> followed by a
  newline, the returned plan is not the captured output.
\<close>

theorem stdout_not_returned_verbatim:
  "subprocess_run (sample_env (Completed 0 ''PLAN TEXT\<newline>'') io_ok)
       [''ollama'', ''run'', ''mistral'', prompt acme] = Completed 0 ''PLAN TEXT\<newline>''
   \<and> generate_business_plan (sample_env (Completed 0 ''PLAN TEXT\<newline>'') io_ok) acme ''mistral''
       \<noteq> ''PLAN TEXT\<newline>''"
  by (simp add: generate_business_plan_def sample_env_sel const_run_def strip_plan_text)

lemma lower_char_slash: "lower_char c = CHR ''/'' \<longleftrightarrow> c = CHR ''/''"
  by (auto simp: lower_char_def Let_def char_of_eq_iff eq_char_of_iff)





lemma process_business_saved:
  assumes "subprocess_run e [''ollama'', ''run'', ''mistral'', prompt b] = Completed 0 stdout"
      and "\<not> contains ''Error'' (strip stdout)"
      and "open_write e (plan_path e b) = IoOk"
  shows "process_business e b files =
           (Inr (''Business plan saved: '' @ plan_path e b),
            files(plan_path e b \<mapsto> strip stdout))"
  using assms
  by (simp add: process_business_def process_try_def generate_business_plan_def
      save_business_plan_def Let_def)

lemma process_business_error:
  assumes "contains ''Error'' (generate_business_plan e b ''mistral'')"
      and "open_write e (error_log_path e) = IoOk"
  shows "process_business e b files =
           (Inr (error_message b (generate_business_plan e b ''mistral'')),
            files(error_log_path e \<mapsto> file_content files (error_log_path e)
                    @ error_message b (generate_business_plan e b ''mistral'')))"
  using assms by (simp add: process_business_def process_try_def Let_def)

lemma single_line_error_message:
  assumes "CHR 0x0A \<notin> set (name b)" and "CHR 0x0A \<notin> set msg"
  shows "single_line (error_message b msg)"
proof -
  have "error_message b msg =
      (''Error processing '' @ [CHR 0x27] @ name b @ [CHR 0x27] @ '': '' @ msg) @ [CHR 0x0A]"
    by (simp add: error_message_def nl_def)
  moreover have "CHR 0x0A \<notin> set (''Error processing '' @ [CHR 0x27] @ name b @ [CHR 0x27] @ '': '' @ msg)"
    using assms by simp
  ultimately show ?thesis
    unfolding single_line_def by (simp only: last_snoc butlast_snoc) simp
qed

text \<open>
  C4 (as amended). When the tool fails (non-zero exit code or exception) and the append
  to the error log succeeds, processing the record changes no file but the error log,
  to which it appends exactly one message, ending with a newline; the message is a
  single line when neither the name of the record nor the reported error text holds a
  newline.
\<close>

theorem tool_failure_logged:
  assumes "tool_failed (subprocess_run e [''ollama'', ''run'', ''mistral'', prompt b])"
      and "open_write e (error_log_path e) = IoOk"
  shows "process_business e b files =
           (Inr (error_message b (generate_business_plan e b ''mistral'')),
            files(error_log_path e \<mapsto> file_content files (error_log_path e)
                    @ error_message b (generate_business_plan e b ''mistral'')))
       \<and> suffix nl (error_message b (generate_business_plan e b ''mistral''))
       \<and> (CHR 0x0A \<notin> set (name b)
            \<and> CHR 0x0A \<notin> set (generate_business_plan e b ''mistral'')
          \<longrightarrow> single_line (error_message b (generate_business_plan e b ''mistral'')))"
proof -
  have "contains ''Error'' (generate_business_plan e b ''mistral'')"
    using assms(1) by (rule plan_when_failed)
  then have "process_business e b files =
           (Inr (error_message b (generate_business_plan e b ''mistral'')),
            files(error_log_path e \<mapsto> file_content files (error_log_path e)
                    @ error_message b (generate_business_plan e b ''mistral'')))"
    using assms(2) by (rule process_business_error)
  moreover have "suffix nl (error_message b (generate_business_plan e b ''mistral''))"
    by (simp add: error_message_def suffix_def)
  ultimately show ?thesis
    by (simp add: single_line_error_message)
qed

theorem tool_failure_logged_witness:
  "process_business (sample_env (Completed 1 []) io_ok) acme Map.empty =
     (Inr (error_message acme ''Error: AI model failed to generate business plan.''),
      [''/app/Generated_Business_Plans/error_log.txt'' \<mapsto>
         error_message acme ''Error: AI model failed to generate business plan.''])
   \<and> single_line (error_message acme ''Error: AI model failed to generate business plan.'')"
  using tool_failure_logged [where e = "sample_env (Completed 1 []) io_ok" and b = acme
      and files = Map.empty]
  by (simp add: sample_env_sel const_run_def io_ok_def error_log_path_sample
      plan_failed_sample file_content_def name_acme)

text \<open>
  The claim as stated fails: a name with a newline inside gives a message of two lines,
  and when the error log cannot be opened nothing is appended.
\<close>

theorem tool_failure_counterexample:
  "tool_failed (subprocess_run (sample_env (Completed 1 []) io_ok)
       [''ollama'', ''run'', ''mistral'', prompt two_lines])
   \<and> \<not> single_line (drop (length (file_content Map.empty
            (error_log_path (sample_env (Completed 1 []) io_ok))))
        (file_content (snd (process_business (sample_env (Completed 1 []) io_ok) two_lines
            Map.empty)) (error_log_path (sample_env (Completed 1 []) io_ok))))
   \<and> tool_failed (subprocess_run (sample_env (Completed 1 []) io_denied)
       [''ollama'', ''run'', ''mistral'', prompt acme])
   \<and> snd (process_business (sample_env (Completed 1 []) io_denied) acme Map.empty) = Map.empty"
  by (simp add: sample_env_sel const_run_def io_ok_def io_denied_def error_log_path_sample
      process_business_def process_try_def generate_business_plan_def file_content_def
      error_message_def single_line_def two_lines_def nl_def Let_def)


lemma process_business_fst:
  "fst (process_business e b files) = fst (process_business e b files')"
  by (cases "open_write e (plan_path e b)"; cases "open_write e (error_log_path e)")
     (simp_all add: process_business_def process_try_def save_business_plan_def Let_def)

lemma process_business_save_failed:
  assumes "\<not> contains ''Error'' (generate_business_plan e b ''mistral'')"
      and "open_write e (plan_path e b) \<noteq> IoOk"
  shows "\<exists>msg. fst (process_business e b files) = Inr (''Error saving file: '' @ msg)"
  using assms
  by (cases "open_write e (plan_path e b)")
     (simp_all add: process_business_def process_try_def save_business_plan_def Let_def)

lemma returns_string_iff:
  "(\<exists>s. fst (process_business e b files) = Inr s) \<longleftrightarrow>
     (\<not> contains ''Error'' (generate_business_plan e b ''mistral'')
      \<or> open_write e (error_log_path e) = IoOk)"
  by (cases "open_write e (plan_path e b)"; cases "open_write e (error_log_path e)")
     (simp_all add: process_business_def process_try_def save_business_plan_def Let_def)

section \<open>Properties of the pool\<close>

lemma run_order_Nil: "run_order pick step [] = []"
  by (simp add: run_order.simps)

lemma run_order_mset: "mset (run_order pick step pending) = mset pending"
proof (induction pick step pending rule: run_order.induct)
  case (1 pick step pending)
  show ?case
  proof (cases "pending = []")
    case True
    then show ?thesis by (simp add: run_order_Nil)
  next
    case False
    define j where "j = pick step mod length pending"
    from False have j: "j < length pending" by (simp add: j_def)
    have "mset (run_order pick (Suc step) (take j pending @ drop (Suc j) pending))
        = mset (take j pending @ drop (Suc j) pending)"
      using "1.IH" [OF False] by (simp add: j_def)
    moreover have "mset pending = mset (take j pending @ pending ! j # drop (Suc j) pending)"
      using j by (metis id_take_nth_drop)
    moreover have "run_order pick step pending =
        pending ! j # run_order pick (Suc step) (take j pending @ drop (Suc j) pending)"
      using False by (subst run_order.simps) (simp add: j_def)
    ultimately show ?thesis by simp
  qed
qed

lemma run_order_indices:
  "distinct (run_order pick 0 [0..<n]) \<and> set (run_order pick 0 [0..<n]) = {0..<n}"
proof -
  have m: "mset (run_order pick 0 [0..<n]) = mset [0..<n]" by (rule run_order_mset)
  have "distinct (run_order pick 0 [0..<n])"
    using mset_eq_imp_distinct_iff [OF m] by simp
  moreover have "set (run_order pick 0 [0..<n]) = {0..<n}"
    using mset_eq_setD [OF m] by simp
  ultimately show ?thesis by simp
qed

lemma sort_run_order: "sort (run_order pick 0 [0..<n]) = [0..<n]"
  by (rule properties_for_sort) (simp_all add: run_order_mset)

lemma insort_key_tagged:
  "insort_key fst (k, g k) (map (\<lambda>i. (i, g i)) ks) = map (\<lambda>i. (i, g i)) (insort k ks)"
  by (induction ks) simp_all

lemma sort_key_tagged:
  "sort_key fst (map (\<lambda>i. (i, g i)) ks) = map (\<lambda>i. (i, g i)) (sort ks)"
  by (induction ks) (simp_all add: insort_key_tagged)

lemma run_calls_finished:
  "fst (run_calls w bs ks files) =
     map (\<lambda>k. (k, fst (process_business (w k) (bs ! k) Map.empty))) ks"
proof (induction ks arbitrary: files)
  case Nil
  then show ?case by simp
next
  case (Cons k ks)
  obtain outcome f1 where p: "process_business (w k) (bs ! k) files = (outcome, f1)"
    by (cases "process_business (w k) (bs ! k) files")
  obtain finished f2 where r: "run_calls w bs ks f1 = (finished, f2)"
    by (cases "run_calls w bs ks f1")
  have "outcome = fst (process_business (w k) (bs ! k) Map.empty)"
    using p process_business_fst [of "w k" "bs ! k" files Map.empty] by simp
  moreover have "finished = map (\<lambda>k. (k, fst (process_business (w k) (bs ! k) Map.empty))) ks"
    using Cons.IH [of f1] r by simp
  moreover have "fst (run_calls w bs (k # ks) files) = (k, outcome) # finished"
    by (simp add: p r)
  ultimately show ?case by simp
qed

lemma run_calls_files:
  "snd (run_calls w bs ks files) =
     foldl (\<lambda>fs k. snd (process_business (w k) (bs ! k) fs)) files ks"
proof (induction ks arbitrary: files)
  case Nil
  then show ?case by simp
next
  case (Cons k ks)
  obtain outcome f1 where p: "process_business (w k) (bs ! k) files = (outcome, f1)"
    by (cases "process_business (w k) (bs ! k) files")
  obtain finished f2 where r: "run_calls w bs ks f1 = (finished, f2)"
    by (cases "run_calls w bs ks f1")
  have "snd (run_calls w bs (k # ks) files) = f2"
    by (simp add: p r)
  moreover have "f2 = foldl (\<lambda>fs k. snd (process_business (w k) (bs ! k) fs)) f1 ks"
    using Cons.IH [of f1] r by simp
  ultimately show ?case by (simp add: p)
qed

lemma collect_map_Inr: "collect (map Inr rs) = Inr rs"
  by (induction rs) simp_all

lemma collect_Inr_D: "collect outcomes = Inr rs \<Longrightarrow> outcomes = map Inr rs"
proof (induction outcomes arbitrary: rs)
  case Nil
  then show ?case by simp
next
  case (Cons y outcomes)
  show ?case
  proof (cases y)
    case (Inl x)
    with Cons.prems show ?thesis by simp
  next
    case (Inr r)
    with Cons.prems obtain rs' where c: "collect outcomes = Inr rs'" and rs: "rs = r # rs'"
      by (cases "collect outcomes") auto
    from Cons.IH [OF c] have "outcomes = map Inr rs'" .
    with Inr rs show ?thesis by simp
  qed
qed

lemma collect_Inr_iff: "collect outcomes = Inr rs \<longleftrightarrow> outcomes = map Inr rs"
  using collect_Inr_D collect_map_Inr by blast

lemma collect_total:
  "(\<forall>y\<in>set outcomes. \<exists>s. y = Inr s) \<Longrightarrow> \<exists>rs. collect outcomes = Inr rs"
proof (induction outcomes rule: collect.induct)
  case 1
  then show ?case by simp
next
  case (2 x outcomes)
  then show ?case by simp
next
  case (3 r outcomes)
  then show ?case by (auto split: sum.splits)
qed

lemma pool_outcomes:
  "map snd (sort_key fst (fst (run_calls w bs (run_order pick 0 [0..<length bs]) files))) =
     map (\<lambda>k. fst (process_business (w k) (bs ! k) Map.empty)) [0..<length bs]"
  by (simp add: run_calls_finished sort_key_tagged sort_run_order comp_def)

lemma pool_imap_Inr:
  assumes "pool_imap w pick bs files = Inr (rs, files')"
  shows "length rs = length bs
       \<and> (\<forall>i<length bs. \<forall>fs. fst (process_business (w i) (bs ! i) fs) = Inr (rs ! i))
       \<and> files' = foldl (\<lambda>fs k. snd (process_business (w k) (bs ! k) fs)) files
                    (run_order pick 0 [0..<length bs])"
proof -
  let ?calls = "run_calls w bs (run_order pick 0 [0..<length bs]) files"
  from assms have c: "collect (map snd (sort_key fst (fst ?calls))) = Inr rs"
    and f: "files' = snd ?calls"
    by (auto simp: pool_imap_def split: prod.splits sum.splits)
  from c have eq: "map (\<lambda>k. fst (process_business (w k) (bs ! k) Map.empty)) [0..<length bs]
      = map Inr rs"
    by (simp add: pool_outcomes collect_Inr_iff)
  then have "length (map (\<lambda>k. fst (process_business (w k) (bs ! k) Map.empty)) [0..<length bs])
      = length (map Inr rs :: (exn + string) list)"
    by (rule arg_cong)
  then have len: "length rs = length bs"
    by simp
  have each: "\<forall>i<length bs. \<forall>fs. fst (process_business (w i) (bs ! i) fs) = Inr (rs ! i)"
  proof (intro allI impI)
    fix i fs
    assume i: "i < length bs"
    from eq have "map (\<lambda>k. fst (process_business (w k) (bs ! k) Map.empty)) [0..<length bs] ! i
        = map Inr rs ! i"
      by simp
    with i len have "fst (process_business (w i) (bs ! i) Map.empty) = Inr (rs ! i)"
      by simp
    then show "fst (process_business (w i) (bs ! i) fs) = Inr (rs ! i)"
      using process_business_fst [of "w i" "bs ! i" fs Map.empty] by simp
  qed
  from f have "files' = foldl (\<lambda>fs k. snd (process_business (w k) (bs ! k) fs)) files
                    (run_order pick 0 [0..<length bs])"
    by (simp add: run_calls_files)
  with len each show ?thesis by blast
qed

lemma pool_imap_total:
  assumes "\<forall>i<length bs. \<exists>s. fst (process_business (w i) (bs ! i) Map.empty) = Inr s"
  shows "\<exists>rs files'. pool_imap w pick bs files = Inr (rs, files')"
proof -
  let ?calls = "run_calls w bs (run_order pick 0 [0..<length bs]) files"
  have "\<forall>y\<in>set (map (\<lambda>k. fst (process_business (w k) (bs ! k) Map.empty)) [0..<length bs]).
          \<exists>s. y = Inr s"
    using assms by auto
  from collect_total [OF this] obtain rs where
    "collect (map snd (sort_key fst (fst ?calls))) = Inr rs"
    by (auto simp: pool_outcomes)
  then show ?thesis
    by (cases ?calls) (simp add: pool_imap_def)
qed

section \<open>Properties of the run\<close>

lemma sum_list_ones: "sum_list (map (\<lambda>r. 1) xs) = int (length xs)"
  by (induction xs) simp_all

lemma main_report:
  assumes "main h files = Inr (r, files')"
  shows "\<exists>bs rs. load_businesses (business_csv h) = Inr bs
      \<and> pool_imap (worker h) (scheduler h) bs files = Inr (rs, files')
      \<and> r = \<lparr>results = rs, total = int (length bs),
              success_count = int (length (filter (contains ''saved'') rs)),
              failure_count = int (length bs) - int (length (filter (contains ''saved'') rs)),
              check_log_hint = (int (length bs) - int (length (filter (contains ''saved'') rs)) > 0)\<rparr>"
  using assms
  by (auto simp: main_def Let_def sum_list_ones split: sum.splits prod.splits)

lemma main_reaches_summary:
  assumes deps: "check_dependencies (tqdm_importable h) (which_ollama h) = Inr ()"
      and load: "load_businesses (business_csv h) = Inr bs"
      and pool: "pool_imap (worker h) (scheduler h) bs files = Inr (rs, files')"
  shows "main h files =
      Inr (\<lparr>results = rs, total = int (length bs),
              success_count = int (length (filter (contains ''saved'') rs)),
              failure_count = int (length bs) - int (length (filter (contains ''saved'') rs)),
              check_log_hint = (int (length bs) - int (length (filter (contains ''saved'') rs)) > 0)\<rparr>,
           files')"
  using assms by (simp add: main_def Let_def sum_list_ones)

lemma load_sample: "load_businesses (Rows sample_rows) = Inr [acme, bolt]"
  by (simp add: load_businesses_def sample_rows_def acme_def bolt_def strip_def py_isspace_def)

lemma order_two: "run_order second_first 0 [0, Suc 0] = [Suc 0, 0]"
  by (simp add: run_order.simps second_first_def)

lemma order_one: "run_order second_first 0 [0] = [0]"
  by (simp add: run_order.simps second_first_def)

lemma process_acme_saved:
  "process_business (sample_env (Completed 0 ''PLAN TEXT\<newline>'') io_ok) acme files =
     (Inr ''Business plan saved: /app/Generated_Business_Plans/acme_2024-03-09_14-05-07.txt'',
      files(''/app/Generated_Business_Plans/acme_2024-03-09_14-05-07.txt'' \<mapsto> ''PLAN TEXT''))"
  using process_business_saved [where e = "sample_env (Completed 0 ''PLAN TEXT\<newline>'') io_ok"
      and b = acme and stdout = "''PLAN TEXT\<newline>''" and files = files]
  by (simp add: sample_env_sel const_run_def io_ok_def strip_plan_text plan_path_acme)

lemma process_sample_failed:
  "process_business (sample_env (Completed 1 []) io_ok) b files =
     (Inr (error_message b ''Error: AI model failed to generate business plan.''),
      files(''/app/Generated_Business_Plans/error_log.txt'' \<mapsto>
        file_content files ''/app/Generated_Business_Plans/error_log.txt''
          @ error_message b ''Error: AI model failed to generate business plan.''))"
  using process_business_error [where e = "sample_env (Completed 1 []) io_ok" and b = b
      and files = files]
  by (simp add: sample_env_sel io_ok_def plan_failed_sample error_log_path_sample)

lemma process_denied:
  "process_business (sample_env (Completed 1 []) io_denied) b files =
     (Inl (Exception ''Permission denied''), files)"
  by (simp add: process_business_def process_try_def plan_failed_sample sample_env_sel
      io_denied_def Let_def)

lemma not_saved_bolt:
  "\<not> contains ''saved'' (error_message bolt ''Error: AI model failed to generate business plan.'')"
  by (simp add: error_message_def bolt_def nl_def)

lemma pool_sample:
  "pool_imap sample_worker second_first [acme, bolt] Map.empty =
     Inr ([''Business plan saved: /app/Generated_Business_Plans/acme_2024-03-09_14-05-07.txt'',
           error_message bolt ''Error: AI model failed to generate business plan.''],
          [''/app/Generated_Business_Plans/error_log.txt'' \<mapsto>
             error_message bolt ''Error: AI model failed to generate business plan.'',
           ''/app/Generated_Business_Plans/acme_2024-03-09_14-05-07.txt'' \<mapsto> ''PLAN TEXT''])"
  by (simp add: pool_imap_def order_two sample_worker_def process_acme_saved
      process_sample_failed file_content_def)

lemma main_sample:
  "main sample_host Map.empty =
     Inr (\<lparr>results =
             [''Business plan saved: /app/Generated_Business_Plans/acme_2024-03-09_14-05-07.txt'',
              error_message bolt ''Error: AI model failed to generate business plan.''],
           total = 2, success_count = 1, failure_count = 1, check_log_hint = True\<rparr>,
      [''/app/Generated_Business_Plans/error_log.txt'' \<mapsto>
         error_message bolt ''Error: AI model failed to generate business plan.'',
       ''/app/Generated_Business_Plans/acme_2024-03-09_14-05-07.txt'' \<mapsto> ''PLAN TEXT''])"
proof -
  have deps: "check_dependencies (tqdm_importable sample_host) (which_ollama sample_host)
      = Inr ()"
    by (simp add: check_dependencies_def sample_host_def)
  have load: "load_businesses (business_csv sample_host) = Inr [acme, bolt]"
    by (simp add: sample_host_def load_sample)
  have pool: "pool_imap (worker sample_host) (scheduler sample_host) [acme, bolt] Map.empty =
     Inr ([''Business plan saved: /app/Generated_Business_Plans/acme_2024-03-09_14-05-07.txt'',
           error_message bolt ''Error: AI model failed to generate business plan.''],
          [''/app/Generated_Business_Plans/error_log.txt'' \<mapsto>
             error_message bolt ''Error: AI model failed to generate business plan.'',
           ''/app/Generated_Business_Plans/acme_2024-03-09_14-05-07.txt'' \<mapsto> ''PLAN TEXT''])"
    by (simp add: sample_host_def pool_sample)
  show ?thesis
    using main_reaches_summary [OF deps load pool] by (simp add: not_saved_bolt)
qed

lemma main_denied:
  "main denied_host Map.empty = Inl (Exception ''Permission denied'')"
proof -
  have "load_businesses (business_csv denied_host) = Inr [acme, bolt]"
    by (simp add: denied_host_def load_sample)
  moreover have "pool_imap denied_worker second_first [acme, bolt] Map.empty
      = Inl (Exception ''Permission denied'')"
    by (simp add: pool_imap_def order_two denied_worker_def process_denied)
  ultimately show ?thesis
    by (simp add: main_def check_dependencies_def denied_host_def)
qed


lemma process_error_word:
  "process_business (sample_env (Completed 0 ''Error budget plan'') io_ok) b files =
     (Inr (error_message b ''Error budget plan''),
      files(''/app/Generated_Business_Plans/error_log.txt'' \<mapsto>
        file_content files ''/app/Generated_Business_Plans/error_log.txt''
          @ error_message b ''Error budget plan''))"
proof -
  have "generate_business_plan (sample_env (Completed 0 ''Error budget plan'') io_ok) b ''mistral''
      = ''Error budget plan''"
    by (simp add: generate_business_plan_def sample_env_sel const_run_def strip_def
        py_isspace_def)
  then show ?thesis
    using process_business_error [where e = "sample_env (Completed 0 ''Error budget plan'') io_ok"
      and b = b and files = files]
    by (simp add: sample_env_sel io_ok_def error_log_path_sample)
qed

lemma error_message_acme:
  "error_message acme ''Error budget plan'' =
     ''Error processing '' @ [CHR 0x27] @ ''Acme'' @ [CHR 0x27] @ '': Error budget plan\<newline>''"
  by (simp add: error_message_def acme_def nl_def)

lemma main_error_word:
  "main error_word_host earlier_log =
     Inr (\<lparr>results = [error_message acme ''Error budget plan''],
           total = 1, success_count = 0, failure_count = 1, check_log_hint = True\<rparr>,
      [''/app/Generated_Business_Plans/error_log.txt'' \<mapsto>
         ''earlier line\<newline>'' @ error_message acme ''Error budget plan''])"
proof -
  have deps: "check_dependencies (tqdm_importable error_word_host) (which_ollama error_word_host)
      = Inr ()"
    by (simp add: check_dependencies_def error_word_host_def)
  have load: "load_businesses (business_csv error_word_host) = Inr [acme]"
    by (simp add: error_word_host_def load_businesses_def acme_def strip_def py_isspace_def)
  have pool: "pool_imap (worker error_word_host) (scheduler error_word_host) [acme] earlier_log
      = Inr ([error_message acme ''Error budget plan''],
          [''/app/Generated_Business_Plans/error_log.txt'' \<mapsto>
             ''earlier line\<newline>'' @ error_message acme ''Error budget plan''])"
    by (simp add: pool_imap_def error_word_host_def error_word_worker_def order_one
        process_error_word file_content_def earlier_log_def)
  have "\<not> contains ''saved'' (error_message acme ''Error budget plan'')"
    by (simp add: error_message_def acme_def nl_def)
  then show ?thesis
    using main_reaches_summary [OF deps load pool] by simp
qed

text \<open>
  C6. Whenever \<open>main\<close> reaches its summary, the total is the number of loaded records
  and the success count and the failure count, both non-negative, add up to it.
\<close>

theorem summary_counts_add_up:
  assumes "main h files = Inr (r, files')"
  shows "\<exists>bs. load_businesses (business_csv h) = Inr bs
       \<and> total r = int (length bs)
       \<and> success_count r + failure_count r = total r
       \<and> 0 \<le> success_count r \<and> 0 \<le> failure_count r"
proof -
  from main_report [OF assms] obtain bs rs where
    load: "load_businesses (business_csv h) = Inr bs" and
    pool: "pool_imap (worker h) (scheduler h) bs files = Inr (rs, files')" and
    r: "r = \<lparr>results = rs, total = int (length bs),
              success_count = int (length (filter (contains ''saved'') rs)),
              failure_count = int (length bs) - int (length (filter (contains ''saved'') rs)),
              check_log_hint = (int (length bs) - int (length (filter (contains ''saved'') rs)) > 0)\<rparr>"
    by blast
  from pool_imap_Inr [OF pool] have "length rs = length bs" by simp
  moreover have "length (filter (contains ''saved'') rs) \<le> length rs" by simp
  ultimately have "0 \<le> failure_count r" using r by simp
  with load r show ?thesis by simp
qed

theorem summary_counts_add_up_witness:
  "\<exists>r files'. main sample_host Map.empty = Inr (r, files')
     \<and> success_count r + failure_count r = total r \<and> total r = 2"
  using summary_counts_add_up [OF main_sample] main_sample by simp

text \<open>
  C7 (as amended). When the dependencies are present, the input file loads and no
  append to the error log fails, so that no call of the handler raises, \<open>main\<close>
  reaches its summary and: there is one result per loaded record, the \<open>i\<close>-th result
  being what the handler returns for the \<open>i\<close>-th record; the files after the run are
  the files before it with the effect of the handler applied once for every record, in
  some order of the records; and the success count is the number of results that
  contain \<open>saved\<close>.
\<close>

theorem results_in_order:
  assumes deps: "check_dependencies (tqdm_importable h) (which_ollama h) = Inr ()"
      and load: "load_businesses (business_csv h) = Inr bs"
      and logs: "\<forall>i<length bs.
                   contains ''Error'' (generate_business_plan (worker h i) (bs ! i) ''mistral'')
                   \<longrightarrow> open_write (worker h i) (error_log_path (worker h i)) = IoOk"
  shows "\<exists>r files' order. main h files = Inr (r, files')
       \<and> length (results r) = length bs
       \<and> (\<forall>i<length bs. \<forall>fs.
             fst (process_business (worker h i) (bs ! i) fs) = Inr (results r ! i))
       \<and> distinct order \<and> set order = {0..<length bs}
       \<and> files' = foldl (\<lambda>fs k. snd (process_business (worker h k) (bs ! k) fs)) files order
       \<and> success_count r = int (length (filter (contains ''saved'') (results r)))"
proof -
  have "\<forall>i<length bs. \<exists>s.
          fst (process_business (worker h i) (bs ! i) Map.empty) = Inr s"
    using logs by (auto simp: returns_string_iff)
  from pool_imap_total [OF this] obtain rs files' where
    pool: "pool_imap (worker h) (scheduler h) bs files = Inr (rs, files')"
    by blast
  define order where "order = run_order (scheduler h) 0 [0..<length bs]"
  define r where "r = \<lparr>results = rs, total = int (length bs),
      success_count = int (length (filter (contains ''saved'') rs)),
      failure_count = int (length bs) - int (length (filter (contains ''saved'') rs)),
      check_log_hint = (int (length bs) - int (length (filter (contains ''saved'') rs)) > 0)\<rparr>"
  from pool_imap_Inr [OF pool] have len: "length rs = length bs"
    and each: "\<forall>i<length bs. \<forall>fs.
          fst (process_business (worker h i) (bs ! i) fs) = Inr (rs ! i)"
    and eff: "files' = foldl (\<lambda>fs k. snd (process_business (worker h k) (bs ! k) fs)) files order"
    by (simp_all add: order_def)
  have ord: "distinct order \<and> set order = {0..<length bs}"
    unfolding order_def by (rule run_order_indices)
  have run: "main h files = Inr (r, files')"
    unfolding r_def by (rule main_reaches_summary [OF deps load pool])
  have "main h files = Inr (r, files')
       \<and> length (results r) = length bs
       \<and> (\<forall>i<length bs. \<forall>fs.
             fst (process_business (worker h i) (bs ! i) fs) = Inr (results r ! i))
       \<and> distinct order \<and> set order = {0..<length bs}
       \<and> files' = foldl (\<lambda>fs k. snd (process_business (worker h k) (bs ! k) fs)) files order
       \<and> success_count r = int (length (filter (contains ''saved'') (results r)))"
    using run len each ord eff by (simp add: r_def)
  then show ?thesis by blast
qed

theorem results_in_order_witness:
  "\<exists>r files'. main sample_host Map.empty = Inr (r, files')
     \<and> results r =
         [''Business plan saved: /app/Generated_Business_Plans/acme_2024-03-09_14-05-07.txt'',
          error_message bolt ''Error: AI model failed to generate business plan.'']
     \<and> files' =
         [''/app/Generated_Business_Plans/error_log.txt'' \<mapsto>
            error_message bolt ''Error: AI model failed to generate business plan.'',
          ''/app/Generated_Business_Plans/acme_2024-03-09_14-05-07.txt'' \<mapsto> ''PLAN TEXT'']
     \<and> success_count r = 1"
proof -
  have deps: "check_dependencies (tqdm_importable sample_host) (which_ollama sample_host)
      = Inr ()"
    by (simp add: check_dependencies_def sample_host_def)
  have load: "load_businesses (business_csv sample_host) = Inr [acme, bolt]"
    by (simp add: sample_host_def load_sample)
  have logs: "\<forall>i<length [acme, bolt].
      contains ''Error''
        (generate_business_plan (worker sample_host i) ([acme, bolt] ! i) ''mistral'')
      \<longrightarrow> open_write (worker sample_host i) (error_log_path (worker sample_host i)) = IoOk"
    by (simp add: sample_host_def sample_worker_def sample_env_sel io_ok_def)
  from results_in_order [OF deps load logs, of Map.empty] obtain r files' where
    "main sample_host Map.empty = Inr (r, files')"
    by blast
  then show ?thesis
    using main_sample by auto
qed

text \<open>
  The claim as stated fails: when a call of the handler raises (here the tool fails and
  the error log cannot be opened), the exception leaves \<open>main\<close>; no results are
  collected and nothing is counted.
\<close>

theorem handler_exception_stops_run:
  "load_businesses (business_csv denied_host) = Inr [acme, bolt]
   \<and> main denied_host Map.empty = Inl (Exception ''Permission denied'')"
  by (simp add: main_denied) (simp add: denied_host_def load_sample)

text \<open>
  C9. There is a record (named \<open>Acme\<close>) whose tool invocation exits with code 0 with
  an output that contains \<open>Error\<close> (\<open>Error budget plan\<close>), for which no plan file
  is written, the line \<open>Error processing 'Acme': Error budget plan\<close> is appended to
  the error log after the line it held, and the summary counts one failure and no
  success.
\<close>

theorem error_word_false_positive:
  "\<exists>h b stdout r files files'.
      load_businesses (business_csv h) = Inr [b]
    \<and> subprocess_run (worker h 0) [''ollama'', ''run'', ''mistral'', prompt b]
        = Completed 0 stdout
    \<and> contains ''Error'' stdout
    \<and> main h files = Inr (r, files')
    \<and> files' (plan_path (worker h 0) b) = None
    \<and> files (error_log_path (worker h 0)) = Some ''earlier line\<newline>''
    \<and> files' = files(error_log_path (worker h 0) \<mapsto>
         ''earlier line\<newline>'' @ ''Error processing '' @ [CHR 0x27] @ name b @ [CHR 0x27]
           @ '': '' @ stdout @ ''\<newline>'')
    \<and> results r = [''Error processing '' @ [CHR 0x27] @ name b @ [CHR 0x27]
           @ '': '' @ stdout @ ''\<newline>'']
    \<and> name b = ''Acme'' \<and> stdout = ''Error budget plan''
    \<and> success_count r = 0 \<and> failure_count r = 1"
proof (intro exI conjI)
  show "load_businesses (business_csv error_word_host) = Inr [acme]"
    by (simp add: error_word_host_def load_businesses_def acme_def strip_def py_isspace_def)
  show "subprocess_run (worker error_word_host 0)
      [''ollama'', ''run'', ''mistral'', prompt acme] = Completed 0 ''Error budget plan''"
    by (simp add: error_word_host_def error_word_worker_def sample_env_sel const_run_def)
  show "contains ''Error'' ''Error budget plan''"
    by simp
  show "main error_word_host earlier_log =
     Inr (\<lparr>results = [error_message acme ''Error budget plan''],
           total = 1, success_count = 0, failure_count = 1, check_log_hint = True\<rparr>,
      [''/app/Generated_Business_Plans/error_log.txt'' \<mapsto>
         ''earlier line\<newline>'' @ error_message acme ''Error budget plan''])"
    by (rule main_error_word)
  show "[''/app/Generated_Business_Plans/error_log.txt'' \<mapsto>
         ''earlier line\<newline>'' @ error_message acme ''Error budget plan'']
        (plan_path (worker error_word_host 0) acme) = None"
    by (simp add: error_word_host_def error_word_worker_def plan_path_acme)
  show "earlier_log (error_log_path (worker error_word_host 0))
      = Some ''earlier line\<newline>''"
    by (simp add: error_word_host_def error_word_worker_def error_log_path_sample
        earlier_log_def)
  show "[''/app/Generated_Business_Plans/error_log.txt'' \<mapsto>
         ''earlier line\<newline>'' @ error_message acme ''Error budget plan'']
      = earlier_log(error_log_path (worker error_word_host 0) \<mapsto>
         ''earlier line\<newline>'' @ ''Error processing '' @ [CHR 0x27] @ name acme @ [CHR 0x27]
           @ '': '' @ ''Error budget plan'' @ ''\<newline>'')"
    by (simp add: error_word_host_def error_word_worker_def error_log_path_sample
        earlier_log_def error_message_def nl_def)
  show "results \<lparr>results = [error_message acme ''Error budget plan''],
           total = 1, success_count = 0, failure_count = 1, check_log_hint = True\<rparr>
      = [''Error processing '' @ [CHR 0x27] @ name acme @ [CHR 0x27]
           @ '': '' @ ''Error budget plan'' @ ''\<newline>'']"
    by (simp add: error_message_def nl_def)
  show "name acme = ''Acme''"
    by (rule name_acme)
  show "''Error budget plan'' = ''Error budget plan''"
    by simp
  show "success_count \<lparr>results = [error_message acme ''Error budget plan''],
           total = 1, success_count = 0, failure_count = 1, check_log_hint = True\<rparr> = 0"
    by simp
  show "failure_count \<lparr>results = [error_message acme ''Error budget plan''],
           total = 1, success_count = 0, failure_count = 1, check_log_hint = True\<rparr> = 1"
    by simp
qed

text \<open>
  C10 (as amended). \<open>process_business\<close> returns a string, for any state of the files,
  exactly when the plan is not marked with \<open>Error\<close> or the append to the error log
  succeeds: a tool failure, a plan marked with \<open>Error\<close> and a failed write of the
  plan file all end in a returned string.
\<close>

theorem process_business_returns:
  "(\<exists>s. fst (process_business e b files) = Inr s) \<longleftrightarrow>
     (\<not> contains ''Error'' (generate_business_plan e b ''mistral'')
      \<or> open_write e (error_log_path e) = IoOk)"
  by (rule returns_string_iff)

theorem process_business_returns_witness:
  "(\<exists>s. fst (process_business (sample_env (Completed 1 []) io_ok) acme Map.empty) = Inr s)
   \<and> (\<exists>s. fst (process_business (sample_env (Completed 0 ''PLAN TEXT\<newline>'') io_denied) acme
              Map.empty) = Inr s)"
proof -
  have "\<not> contains ''Error'' (generate_business_plan
          (sample_env (Completed 0 ''PLAN TEXT\<newline>'') io_denied) acme ''mistral'')"
    by (simp add: generate_business_plan_def sample_env_sel const_run_def strip_plan_text)
  then show ?thesis
    using process_business_returns [of "sample_env (Completed 1 []) io_ok" acme Map.empty]
      process_business_returns
        [of "sample_env (Completed 0 ''PLAN TEXT\<newline>'') io_denied" acme Map.empty]
    by (simp add: sample_env_sel io_ok_def)
qed

text \<open>
  The claim as stated fails: when the tool fails and the error log cannot be opened,
  the exception of the append leaves \<open>process_business\<close>.
\<close>

theorem log_failure_propagates:
  "tool_failed (subprocess_run (sample_env (Completed 1 []) io_denied)
       [''ollama'', ''run'', ''mistral'', prompt acme])
   \<and> fst (process_business (sample_env (Completed 1 []) io_denied) acme Map.empty)
       = Inl (Exception ''Permission denied'')"
  by (simp add: process_business_def process_try_def plan_failed_sample sample_env_sel
      const_run_def io_denied_def Let_def)


lemma process_business_save_error:
  assumes "\<not> contains ''Error'' (generate_business_plan e b ''mistral'')"
      and "open_write e (plan_path e b) = OpenFails m
           \<or> open_write e (plan_path e b) = WriteFails n m"
  shows "fst (process_business e b files) = Inr (''Error saving file: '' @ m)"
  using assms
  by (auto simp: process_business_def process_try_def save_business_plan_def Let_def)

text \<open>
  C5 (as amended). When the dependencies are present, the input file loads, and no
  append to the error log fails, the run reaches its summary with one result string
  per record, and the failure count is the number of results that do not contain
  \<open>saved\<close>. A tool failure or a plan marked with \<open>Error\<close> is appended to the
  error log and returned as a string; a failed write of the plan file is returned as
  the string \<open>Error saving file: \<close> followed by the text of the error.
\<close>

theorem per_record_failures_recovered:
  assumes deps: "check_dependencies (tqdm_importable h) (which_ollama h) = Inr ()"
      and load: "load_businesses (business_csv h) = Inr bs"
      and logs: "\<forall>i<length bs.
                   contains ''Error'' (generate_business_plan (worker h i) (bs ! i) ''mistral'')
                   \<longrightarrow> open_write (worker h i) (error_log_path (worker h i)) = IoOk"
  shows "(\<exists>r files'. main h files = Inr (r, files')
            \<and> length (results r) = length bs
            \<and> (\<forall>i<length bs. \<forall>fs.
                  fst (process_business (worker h i) (bs ! i) fs) = Inr (results r ! i))
            \<and> failure_count r
                = int (length (filter (\<lambda>s. \<not> contains ''saved'' s) (results r))))
       \<and> (contains ''Error'' (generate_business_plan e b ''mistral'')
            \<and> open_write e (error_log_path e) = IoOk
          \<longrightarrow> process_business e b fs =
                (Inr (error_message b (generate_business_plan e b ''mistral'')),
                 fs(error_log_path e \<mapsto> file_content fs (error_log_path e)
                      @ error_message b (generate_business_plan e b ''mistral''))))
       \<and> (\<not> contains ''Error'' (generate_business_plan e b ''mistral'')
            \<and> (open_write e (plan_path e b) = OpenFails m
                \<or> open_write e (plan_path e b) = WriteFails n m)
          \<longrightarrow> fst (process_business e b fs) = Inr (''Error saving file: '' @ m))"
proof -
  have "\<forall>k<length bs. \<exists>s.
          fst (process_business (worker h k) (bs ! k) Map.empty) = Inr s"
    using logs by (auto simp: returns_string_iff)
  from pool_imap_total [OF this] obtain rs files' where
    pool: "pool_imap (worker h) (scheduler h) bs files = Inr (rs, files')"
    by blast
  from pool_imap_Inr [OF pool] have len: "length rs = length bs"
    and each: "\<forall>k<length bs. \<forall>fs.
          fst (process_business (worker h k) (bs ! k) fs) = Inr (rs ! k)"
    by simp_all
  define r where "r = \<lparr>results = rs, total = int (length bs),
      success_count = int (length (filter (contains ''saved'') rs)),
      failure_count = int (length bs) - int (length (filter (contains ''saved'') rs)),
      check_log_hint = (int (length bs) - int (length (filter (contains ''saved'') rs)) > 0)\<rparr>"
  have run: "main h files = Inr (r, files')"
    unfolding r_def by (rule main_reaches_summary [OF deps load pool])
  have "length (filter (contains ''saved'') rs)
          + length (filter (\<lambda>s. \<not> contains ''saved'' s) rs) = length rs"
    by (rule sum_length_filter_compl)
  with len have "failure_count r = int (length (filter (\<lambda>s. \<not> contains ''saved'' s) rs))"
    by (simp add: r_def)
  with run len each have first: "\<exists>r files'. main h files = Inr (r, files')
            \<and> length (results r) = length bs
            \<and> (\<forall>i<length bs. \<forall>fs.
                  fst (process_business (worker h i) (bs ! i) fs) = Inr (results r ! i))
            \<and> failure_count r
                = int (length (filter (\<lambda>s. \<not> contains ''saved'' s) (results r)))"
    by (simp add: r_def)
  have second: "contains ''Error'' (generate_business_plan e b ''mistral'')
            \<and> open_write e (error_log_path e) = IoOk
          \<longrightarrow> process_business e b fs =
                (Inr (error_message b (generate_business_plan e b ''mistral'')),
                 fs(error_log_path e \<mapsto> file_content fs (error_log_path e)
                      @ error_message b (generate_business_plan e b ''mistral'')))"
    by (simp add: process_business_error)
  have third: "\<not> contains ''Error'' (generate_business_plan e b ''mistral'')
            \<and> (open_write e (plan_path e b) = OpenFails m
                \<or> open_write e (plan_path e b) = WriteFails n m)
          \<longrightarrow> fst (process_business e b fs) = Inr (''Error saving file: '' @ m)"
    using process_business_save_error [of e b m n fs] by blast
  from first second third show ?thesis by blast
qed

theorem per_record_failures_recovered_witness:
  "(\<exists>r files'. main sample_host Map.empty = Inr (r, files') \<and> length (results r) = 2)
   \<and> process_business (sample_env (Completed 1 []) io_ok) bolt Map.empty =
       (Inr (error_message bolt ''Error: AI model failed to generate business plan.''),
        [''/app/Generated_Business_Plans/error_log.txt'' \<mapsto>
           error_message bolt ''Error: AI model failed to generate business plan.''])
   \<and> fst (process_business (sample_env (Completed 0 ''PLAN TEXT\<newline>'') io_log_only)
            acme Map.empty) = Inr ''Error saving file: No space left on device''"
proof -
  have deps: "check_dependencies (tqdm_importable sample_host) (which_ollama sample_host)
      = Inr ()"
    by (simp add: check_dependencies_def sample_host_def)
  have load: "load_businesses (business_csv sample_host) = Inr [acme, bolt]"
    by (simp add: sample_host_def load_sample)
  have logs: "\<forall>i<length [acme, bolt].
      contains ''Error''
        (generate_business_plan (worker sample_host i) ([acme, bolt] ! i) ''mistral'')
      \<longrightarrow> open_write (worker sample_host i) (error_log_path (worker sample_host i)) = IoOk"
    by (simp add: sample_host_def sample_worker_def sample_env_sel io_ok_def)
  have plan: "\<not> contains ''Error'' (generate_business_plan
      (sample_env (Completed 0 ''PLAN TEXT\<newline>'') io_log_only) acme ''mistral'')"
    by (simp add: generate_business_plan_def sample_env_sel const_run_def strip_plan_text)
  note tool = per_record_failures_recovered [OF deps load logs,
        where files = Map.empty and e = "sample_env (Completed 1 []) io_ok" and b = bolt
          and fs = Map.empty and m = "[]" and n = 0]
  note save = per_record_failures_recovered [OF deps load logs,
        where files = Map.empty
          and e = "sample_env (Completed 0 ''PLAN TEXT\<newline>'') io_log_only" and b = acme
          and fs = Map.empty and m = "''No space left on device''" and n = 0]
  from tool have "\<exists>r files'. main sample_host Map.empty = Inr (r, files')
      \<and> length (results r) = 2"
    by auto
  moreover from tool have "process_business (sample_env (Completed 1 []) io_ok) bolt Map.empty =
       (Inr (error_message bolt ''Error: AI model failed to generate business plan.''),
        [''/app/Generated_Business_Plans/error_log.txt'' \<mapsto>
           error_message bolt ''Error: AI model failed to generate business plan.''])"
    by (simp add: sample_env_sel io_ok_def plan_failed_sample error_log_path_sample
        file_content_def)
  moreover from save plan
  have "fst (process_business (sample_env (Completed 0 ''PLAN TEXT\<newline>'') io_log_only)
                 acme Map.empty) = Inr ''Error saving file: No space left on device''"
    by (simp add: sample_env_sel io_log_only_def plan_path_acme)
  ultimately show ?thesis by blast
qed

text \<open>
  The claim as stated fails: a failed write of the plan file leaves the error log as it
  was, although the log can be written; and the message of a tool failure for a record
  named \<open>Time saved\<close> contains \<open>saved\<close>, so the summary counts it as a success.
\<close>

theorem failure_handling_counterexample:
  "open_write (sample_env (Completed 0 ''PLAN TEXT\<newline>'') io_log_only)
       (error_log_path (sample_env (Completed 0 ''PLAN TEXT\<newline>'') io_log_only)) = IoOk
   \<and> process_business (sample_env (Completed 0 ''PLAN TEXT\<newline>'') io_log_only) acme Map.empty
       = (Inr ''Error saving file: No space left on device'', Map.empty)
   \<and> tool_failed (subprocess_run (sample_env (Completed 1 []) io_ok)
       [''ollama'', ''run'', ''mistral'', prompt time_saved])
   \<and> fst (process_business (sample_env (Completed 1 []) io_ok) time_saved Map.empty)
       = Inr (error_message time_saved ''Error: AI model failed to generate business plan.'')
   \<and> contains ''saved''
       (error_message time_saved ''Error: AI model failed to generate business plan.'')"
proof -
  have "process_business (sample_env (Completed 0 ''PLAN TEXT\<newline>'') io_log_only) acme
      Map.empty = (Inr ''Error saving file: No space left on device'', Map.empty)"
    by (simp add: process_business_def process_try_def generate_business_plan_def
        save_business_plan_def sample_env_sel const_run_def strip_plan_text plan_path_acme
        io_log_only_def Let_def)
  moreover have "contains ''saved''
       (error_message time_saved ''Error: AI model failed to generate business plan.'')"
    by (simp add: error_message_def time_saved_def)
  ultimately show ?thesis
    by (simp add: sample_env_sel const_run_def io_log_only_def error_log_path_sample
        process_sample_failed)
qed

section \<open>The plan file\<close>

lemma lower_char_not_slash: "c \<noteq> CHR ''/'' \<Longrightarrow> lower_char c \<noteq> CHR ''/''"
  by (simp add: lower_char_slash)












end
